theory Spec2Isabelle
  imports Main "HOL-Library.Sublist"
begin

section \<open>DevDash MCP server: the tool catalog and the dispatcher\<close>

text \<open>
  A shallow embedding of \<^verbatim>\<open>src/tools/mcp/devdash_mcp/server.py\<close>: the list of tools
  returned by \<^verbatim>\<open>list_tools\<close> and the dispatcher \<^verbatim>\<open>call_tool\<close>, which turns a tool
  name and an argument dictionary into one HTTP GET against the DevTools API and
  translates the answer into content blocks.
\<close>

subsection \<open>Python values\<close>

text \<open>
  The values that reach the server in a tool's \<^verbatim>\<open>arguments\<close> and that the input schemas
  are built from: JSON data as Python objects. Python's \<^verbatim>\<open>float\<close> is left out of the
  model. A dictionary keeps its insertion order, so it is an association list.
\<close>

datatype pyval =
    PNone
  | PBool bool
  | PInt int
  | PStr string
  | PList "pyval list"
  | PDict "(string \<times> pyval) list"

text \<open>Python's truth value of an object, as \<^verbatim>\<open>if x\<close> and \<^verbatim>\<open>not x\<close> test it.\<close>

fun truthy :: "pyval \<Rightarrow> bool" where
  "truthy PNone = False"
| "truthy (PBool b) = b"
| "truthy (PInt n) = (n \<noteq> 0)"
| "truthy (PStr s) = (s \<noteq> [])"
| "truthy (PList xs) = (xs \<noteq> [])"
| "truthy (PDict kvs) = (kvs \<noteq> [])"

fun type_name :: "pyval \<Rightarrow> string" where
  "type_name PNone = ''NoneType''"
| "type_name (PBool b) = ''bool''"
| "type_name (PInt n) = ''int''"
| "type_name (PStr s) = ''str''"
| "type_name (PList xs) = ''list''"
| "type_name (PDict kvs) = ''dict''"

text \<open>
  The argument dictionary of a call. The MCP framework hands \<^verbatim>\<open>call_tool\<close> a dictionary
  (an absent one is replaced by \<^verbatim>\<open>{}\<close>), and the code only tests membership and reads
  keys, so it is a map.
\<close>

type_synonym arguments = "string \<rightharpoonup> pyval"

definition no_arguments :: arguments where
  "no_arguments = Map.empty"

text \<open>\<^verbatim>\<open>arguments.get(key)\<close>: \<^verbatim>\<open>None\<close> for a missing key.\<close>

definition dict_get :: "arguments \<Rightarrow> string \<Rightarrow> pyval" where
  "dict_get d k = (case d k of None \<Rightarrow> PNone | Some v \<Rightarrow> v)"

subsection \<open>Decimal rendering of integers\<close>

text \<open>What an f-string writes for an \<^verbatim>\<open>int\<close>: its decimal digits, with a minus sign.\<close>

definition digit_char :: "nat \<Rightarrow> char" where
  "digit_char d = ''0123456789'' ! (d mod 10)"

fun str_nat :: "nat \<Rightarrow> string" where
  "str_nat n = (if n < 10 then [digit_char n] else str_nat (n div 10) @ [digit_char (n mod 10)])"

definition str_int :: "int \<Rightarrow> string" where
  "str_int i = (if i < 0 then CHR ''-'' # str_nat (nat (- i)) else str_nat (nat i))"

subsection \<open>Base64\<close>

text \<open>
  \<^verbatim>\<open>base64.b64encode(image_data).decode("utf-8")\<close>: three bytes become four characters
  of the standard alphabet, and a last group of one or two bytes is padded with \<^verbatim>\<open>=\<close>.
  A byte is a \<^typ>\<open>char\<close>.
\<close>

definition b64_alphabet :: string where
  "b64_alphabet = ''ABCDEFGHIJKLMNOPQRSTUVWXYZabcdefghijklmnopqrstuvwxyz0123456789+/''"

definition b64_char :: "nat \<Rightarrow> char" where
  "b64_char n = b64_alphabet ! (n mod 64)"

fun b64encode :: "string \<Rightarrow> string" where
  "b64encode (a # b # c # rest) =
     (let n = of_char a * 65536 + of_char b * 256 + of_char c in
      b64_char (n div 262144) # b64_char (n div 4096) # b64_char (n div 64) # b64_char n
        # b64encode rest)"
| "b64encode [a, b] =
     (let n = of_char a * 65536 + of_char b * 256 in
      [b64_char (n div 262144), b64_char (n div 4096), b64_char (n div 64), CHR ''=''])"
| "b64encode [a] =
     (let n = of_char a * 65536 in
      [b64_char (n div 262144), b64_char (n div 4096), CHR ''='', CHR ''=''])"
| "b64encode [] = []"

subsection \<open>The tool catalog\<close>

text \<open>\<^verbatim>\<open>mcp.types.Tool\<close>, with the three fields the server fills in.\<close>

datatype tool = Tool (tool_name: string) (description: string) (inputSchema: pyval)

definition no_properties_schema :: pyval where
  "no_properties_schema =
     PDict [(''type'', PStr ''object''), (''properties'', PDict []), (''required'', PList [])]"

definition list_tools :: "tool list" where
  "list_tools =
    [ Tool ''devdash_get_state''
        ''Get current telemetry state from DevDash (RPM, speed, temperatures, etc.)''
        no_properties_schema,
      Tool ''devdash_get_warnings''
        ''Get active warnings and critical alerts from DevDash''
        no_properties_schema,
      Tool ''devdash_screenshot''
        ''Capture PNG screenshot of a DevDash window''
        (PDict
          [(''type'', PStr ''object''),
           (''properties'', PDict
              [(''window'', PDict
                  [(''type'', PStr ''string''),
                   (''description'',
                      PStr ''Window name to capture (e.g., 'cluster', 'headunit')'')])]),
           (''required'', PList [PStr ''window''])]),
      Tool ''devdash_list_windows''
        ''List available DevDash windows for screenshot capture''
        no_properties_schema,
      Tool ''devdash_get_logs''
        ''Retrieve recent application logs from DevDash with filtering by level and category''
        (PDict
          [(''type'', PStr ''object''),
           (''properties'', PDict
              [(''count'', PDict
                  [(''type'', PStr ''integer''),
                   (''description'',
                      PStr ''Number of log entries to retrieve (max 1000, default 100)''),
                   (''default'', PInt 100)]),
               (''level'', PDict
                  [(''type'', PStr ''string''),
                   (''description'',
                      PStr ''Minimum log level to include (debug, info, warning, critical)''),
                   (''enum'',
                      PList [PStr ''debug'', PStr ''info'', PStr ''warning'', PStr ''critical'']),
                   (''default'', PStr ''info'')]),
               (''category'', PDict
                  [(''type'', PStr ''string''),
                   (''description'',
                      PStr ''Filter by category (e.g., 'devdash.broker', 'devdash.adapter')''),
                   (''default'', PStr '''')])]),
           (''required'', PList [])]) ]"

subsection \<open>The HTTP exchange\<close>

definition DEVTOOLS_BASE_URL :: string where
  "DEVTOOLS_BASE_URL = ''http://127.0.0.1:18080''"

text \<open>
  A request is the URL and the \<^verbatim>\<open>params\<close> dictionary given to \<^verbatim>\<open>client.get\<close> (empty
  when the call passes none). A response is what the code reads of it: the status code,
  the body as bytes (\<^verbatim>\<open>response.content\<close>) and the body as text (\<^verbatim>\<open>response.text\<close>).
\<close>

record request =
  url :: string
  params :: "(string \<times> pyval) list"

record response =
  status_code :: int
  resp_content :: string
  resp_text :: string

text \<open>
  The exceptions the \<^verbatim>\<open>try\<close> block can raise, by the handler that catches them:
  \<^verbatim>\<open>httpx.ConnectError\<close>, \<^verbatim>\<open>httpx.HTTPStatusError\<close> (which carries the response) and
  any other \<^verbatim>\<open>Exception\<close>; the string is \<^verbatim>\<open>str(e)\<close>.
\<close>

datatype fault =
    ConnectError string
  | HTTPStatusError response
  | OtherException string

text \<open>
  The backend, as one call sees it: \<^verbatim>\<open>await client.get(url, params=...)\<close> either raises
  or returns a response. The client's timeout of 5 seconds is one of the ways it raises.
\<close>

type_synonym backend = "request \<Rightarrow> fault + response"

text \<open>
  \<^verbatim>\<open>response.raise_for_status()\<close> of httpx: it returns for a status code from 200 to
  299 and raises \<^verbatim>\<open>HTTPStatusError\<close> for every other one.
\<close>

definition raise_for_status :: "response \<Rightarrow> fault + response" where
  "raise_for_status r =
     (if 200 \<le> status_code r \<and> status_code r \<le> 299 then Inr r else Inl (HTTPStatusError r))"

text \<open>
  The two calls into Python's \<^verbatim>\<open>json\<close> module: \<^verbatim>\<open>response.json()\<close>, which parses the
  body or raises, and \<^verbatim>\<open>json.dumps(data, indent=2)\<close>. The module is not part of the
  server; the dispatcher is modelled for any such pair of functions, over any type
  \<^typ>\<open>'j\<close> of parsed data.
\<close>

record 'j json_module =
  loads :: "string \<Rightarrow> fault + 'j"
  dumps_indent2 :: "'j \<Rightarrow> string"

subsection \<open>The result of a call\<close>

datatype content_block =
    TextContent string
  | ImageContent string string

text \<open>
  A call returns the requests it issued, in order, and what the caller gets: a list of
  content blocks, or an exception that was not caught.
\<close>

type_synonym outcome = "request list \<times> (fault + content_block list)"

subsection \<open>\<^verbatim>\<open>call_tool\<close>\<close>

text \<open>
  The query parameters of \<^verbatim>\<open>devdash_get_logs\<close>. \<^verbatim>\<open>min(arguments["count"], 1000)\<close> keeps
  its first argument unless \<^verbatim>\<open>1000 < count\<close>; the comparison is defined for \<^verbatim>\<open>int\<close> and
  \<^verbatim>\<open>bool\<close> and raises \<^verbatim>\<open>TypeError\<close> for the other types of the model.
\<close>

fun min_1000 :: "pyval \<Rightarrow> fault + pyval" where
  "min_1000 (PInt n) = Inr (if 1000 < n then PInt 1000 else PInt n)"
| "min_1000 (PBool b) = Inr (PBool b)"
| "min_1000 v =
     Inl (OtherException
       ('''<' not supported between instances of 'int' and ''
          @ [CHR 0x27] @ type_name v @ [CHR 0x27]))"

definition get_logs_params :: "arguments \<Rightarrow> fault + (string \<times> pyval) list" where
  "get_logs_params arguments =
     (case (case arguments ''count'' of
              None \<Rightarrow> Inr []
            | Some c \<Rightarrow>
                (case min_1000 c of Inl e \<Rightarrow> Inl e | Inr m \<Rightarrow> Inr [(''count'', m)])) of
        Inl e \<Rightarrow> Inl e
      | Inr p1 \<Rightarrow>
          (let p2 = (case arguments ''level'' of
                       None \<Rightarrow> p1
                     | Some l \<Rightarrow> p1 @ [(''level'', l)]);
               p3 = (case arguments ''category'' of
                       None \<Rightarrow> p2
                     | Some c \<Rightarrow> if truthy c then p2 @ [(''category'', c)] else p2)
           in Inr p3))"

text \<open>
  The four JSON tools share their body: GET, \<^verbatim>\<open>raise_for_status\<close>, parse the body,
  and return it pretty-printed in one text block.
\<close>

definition get_json :: "'j json_module \<Rightarrow> backend \<Rightarrow> request \<Rightarrow> outcome" where
  "get_json js backend req =
     ([req],
      case backend req of
        Inl e \<Rightarrow> Inl e
      | Inr response \<Rightarrow>
          (case raise_for_status response of
             Inl e \<Rightarrow> Inl e
           | Inr _ \<Rightarrow>
               (case loads js (resp_content response) of
                  Inl e \<Rightarrow> Inl e
                | Inr data \<Rightarrow> Inr [TextContent (dumps_indent2 js data)])))"

definition get_image :: "backend \<Rightarrow> request \<Rightarrow> outcome" where
  "get_image backend req =
     ([req],
      case backend req of
        Inl e \<Rightarrow> Inl e
      | Inr response \<Rightarrow>
          (case raise_for_status response of
             Inl e \<Rightarrow> Inl e
           | Inr _ \<Rightarrow> Inr [ImageContent (b64encode (resp_content response)) ''image/png'']))"

text \<open>The body of the \<^verbatim>\<open>try\<close> statement.\<close>

definition call_tool_try :: "'j json_module \<Rightarrow> backend \<Rightarrow> string \<Rightarrow> arguments \<Rightarrow> outcome" where
  "call_tool_try js backend name arguments =
     (if name = ''devdash_get_state'' then
        get_json js backend \<lparr>url = DEVTOOLS_BASE_URL @ ''/api/state'', params = []\<rparr>
      else if name = ''devdash_get_warnings'' then
        get_json js backend \<lparr>url = DEVTOOLS_BASE_URL @ ''/api/warnings'', params = []\<rparr>
      else if name = ''devdash_list_windows'' then
        get_json js backend \<lparr>url = DEVTOOLS_BASE_URL @ ''/api/windows'', params = []\<rparr>
      else if name = ''devdash_get_logs'' then
        (case get_logs_params arguments of
           Inl e \<Rightarrow> ([], Inl e)
         | Inr ps \<Rightarrow> get_json js backend \<lparr>url = DEVTOOLS_BASE_URL @ ''/api/logs'', params = ps\<rparr>)
      else if name = ''devdash_screenshot'' then
        (let window = dict_get arguments ''window'' in
         if \<not> truthy window then
           ([], Inr [TextContent ''Error: 'window' parameter is required''])
         else
           get_image backend
             \<lparr>url = DEVTOOLS_BASE_URL @ ''/api/screenshot'', params = [(''window'', window)]\<rparr>)
      else ([], Inr [TextContent (''Unknown tool: '' @ name)]))"

text \<open>The three \<^verbatim>\<open>except\<close> clauses, in the source's order.\<close>

definition connect_error_text :: string where
  "connect_error_text =
     ''Error: Cannot connect to DevDash. Make sure DevDash is running with DevTools server enabled.''"

fun handle_fault :: "fault \<Rightarrow> content_block list" where
  "handle_fault (ConnectError m) = [TextContent connect_error_text]"
| "handle_fault (HTTPStatusError r) =
     [TextContent (''Error: HTTP '' @ str_int (status_code r) @ '' - '' @ resp_text r)]"
| "handle_fault (OtherException m) = [TextContent (''Error: '' @ m)]"

definition call_tool :: "'j json_module \<Rightarrow> backend \<Rightarrow> string \<Rightarrow> arguments \<Rightarrow> outcome" where
  "call_tool js backend name arguments =
     (case call_tool_try js backend name arguments of
        (reqs, Inr blocks) \<Rightarrow> (reqs, Inr blocks)
      | (reqs, Inl e) \<Rightarrow> (reqs, Inr (handle_fault e)))"

subsection \<open>Sample environments\<close>

text \<open>
  Concrete backends and a concrete stand-in for the \<^verbatim>\<open>json\<close> module, for running the
  dispatcher on examples. The stand-in knows the bodies the examples use, with the text
  Python prints for them, and rejects every other body as \<^verbatim>\<open>json.loads\<close> rejects a
  body that is not JSON.
\<close>

definition sample_loads :: \<open>string \<Rightarrow> fault + pyval\<close> where
  \<open>sample_loads body =
     (if body = ''{"rpm": 3000}'' then Inr (PDict [(''rpm'', PInt 3000)])
      else if body = ''[]'' then Inr (PList [])
      else Inl (OtherException ''Expecting value: line 1 column 1 (char 0)''))\<close>

definition sample_dumps :: \<open>pyval \<Rightarrow> string\<close> where
  \<open>sample_dumps data =
     (if data = PDict [(''rpm'', PInt 3000)] then ''{'' @ [CHR 0x0A] @ ''  "rpm": 3000'' @ [CHR 0x0A] @ ''}''
      else if data = PList [] then ''[]''
      else ''null'')\<close>

definition sample_json :: "pyval json_module" where
  "sample_json = \<lparr>loads = sample_loads, dumps_indent2 = sample_dumps\<rparr>"

definition backend_refusing :: backend where
  "backend_refusing req = Inl (ConnectError ''All connection attempts failed'')"

definition backend_not_found :: backend where
  "backend_not_found req =
     Inr \<lparr>status_code = 404, resp_content = ''not found'', resp_text = ''not found''\<rparr>"


definition backend_empty_list :: backend where
  "backend_empty_list req = Inr \<lparr>status_code = 200, resp_content = ''[]'', resp_text = ''[]''\<rparr>"

section \<open>Properties\<close>

subsection \<open>What a call issues and what it returns\<close>

lemma call_tool_requests: "fst (call_tool js backend name arguments) = fst (call_tool_try js backend name arguments)"
  by (simp add: call_tool_def split: prod.splits sum.splits)

lemma call_tool_result:
  "snd (call_tool js backend name arguments) =
     Inr (case snd (call_tool_try js backend name arguments) of Inl e \<Rightarrow> handle_fault e | Inr blocks \<Rightarrow> blocks)"
  by (simp add: call_tool_def split: prod.splits sum.splits)

lemma handle_fault_single: "\<exists>t. handle_fault e = [TextContent t]"
  by (cases e) simp_all

lemma get_json_single: "snd (get_json js backend req) = Inr blocks \<Longrightarrow> \<exists>b. blocks = [b]"
  by (auto simp: get_json_def split: sum.splits)

lemma get_image_single: "snd (get_image backend req) = Inr blocks \<Longrightarrow> \<exists>b. blocks = [b]"
  by (auto simp: get_image_def split: sum.splits)

lemma call_tool_try_single:
  "snd (call_tool_try js backend name arguments) = Inr blocks \<Longrightarrow> \<exists>b. blocks = [b]"
  unfolding call_tool_try_def
  by (auto simp: Let_def dest: get_json_single get_image_single split: if_splits sum.splits)


lemma get_json_requests: "fst (get_json js backend req) = [req]"
  by (simp add: get_json_def)

lemma get_image_requests: "fst (get_image backend req) = [req]"
  by (simp add: get_image_def)

lemma json_tool_requests:
  "fst (call_tool js backend ''devdash_get_state'' arguments) =
     [\<lparr>url = ''http://127.0.0.1:18080/api/state'', params = []\<rparr>]"
  "fst (call_tool js backend ''devdash_get_warnings'' arguments) =
     [\<lparr>url = ''http://127.0.0.1:18080/api/warnings'', params = []\<rparr>]"
  "fst (call_tool js backend ''devdash_list_windows'' arguments) =
     [\<lparr>url = ''http://127.0.0.1:18080/api/windows'', params = []\<rparr>]"
  by (simp_all add: call_tool_requests call_tool_try_def get_json_requests DEVTOOLS_BASE_URL_def)

lemma get_logs_requests:
  "fst (call_tool js backend ''devdash_get_logs'' arguments) =
     (case get_logs_params arguments of
        Inl e \<Rightarrow> []
      | Inr ps \<Rightarrow> [\<lparr>url = ''http://127.0.0.1:18080/api/logs'', params = ps\<rparr>])"
  by (simp add: call_tool_requests call_tool_try_def get_json_requests DEVTOOLS_BASE_URL_def
      split: sum.splits)

lemma screenshot_requests:
  "fst (call_tool js backend ''devdash_screenshot'' arguments) =
     (if truthy (dict_get arguments ''window'')
      then [\<lparr>url = ''http://127.0.0.1:18080/api/screenshot'',
              params = [(''window'', dict_get arguments ''window'')]\<rparr>]
      else [])"
  by (simp add: call_tool_requests call_tool_try_def get_image_requests DEVTOOLS_BASE_URL_def Let_def)

lemma get_logs_params_int:
  "arguments ''count'' = Some (PInt n) \<Longrightarrow>
     \<exists>rest. get_logs_params arguments = Inr ((''count'', PInt (min n 1000)) # rest)"
  by (auto simp: get_logs_params_def Let_def min_def split: option.splits)


lemma issued_request:
  assumes "req \<in> set (fst (call_tool js backend name arguments))"
  shows "call_tool_try js backend name arguments = get_json js backend req \<or>
         call_tool_try js backend name arguments = get_image backend req"
  using assms unfolding call_tool_requests call_tool_try_def
  by (auto simp: Let_def get_json_requests get_image_requests split: if_splits sum.splits)

lemma issued_request_fault:
  assumes "req \<in> set (fst (call_tool js backend name arguments))"
    and "backend req = Inl e"
  shows "snd (call_tool js backend name arguments) = Inr (handle_fault e)"
  using issued_request [OF assms(1)] assms(2)
  by (auto simp: call_tool_result get_json_def get_image_def)

lemma issued_request_status:
  assumes "req \<in> set (fst (call_tool js backend name arguments))"
    and "backend req = Inr r"
    and "\<not> (200 \<le> status_code r \<and> status_code r \<le> 299)"
  shows "snd (call_tool js backend name arguments) = Inr (handle_fault (HTTPStatusError r))"
  using issued_request [OF assms(1)] assms(2,3)
  by (auto simp: call_tool_result get_json_def get_image_def raise_for_status_def)

text \<open>
  The four JSON tools on success: when the request is answered with a status from 200
  to 299 and the body parses to \<open>v\<close>, the call returns one text block holding
  \<^verbatim>\<open>json.dumps(v, indent=2)\<close>. Nothing is done to the data between parsing and
  printing.
\<close>

lemma issued_json_request:
  assumes "req \<in> set (fst (call_tool js backend name arguments))"
    and "name \<noteq> ''devdash_screenshot''"
  shows "call_tool_try js backend name arguments = get_json js backend req"
  using assms unfolding call_tool_requests call_tool_try_def
  by (auto simp: get_json_requests split: if_splits sum.splits)

lemma json_tool_success:
  assumes "req \<in> set (fst (call_tool js backend name arguments))"
    and "name \<noteq> ''devdash_screenshot''"
    and "backend req = Inr r"
    and "200 \<le> status_code r \<and> status_code r \<le> 299"
    and "loads js (resp_content r) = Inr v"
  shows "snd (call_tool js backend name arguments) = Inr [TextContent (dumps_indent2 js v)]"
  using issued_json_request [OF assms(1,2)] assms(3-5)
  by (simp add: call_tool_result get_json_def raise_for_status_def)

subsection \<open>The claims\<close>






text \<open>
  Claim C3 as stated fails: the names carry the prefix \<^verbatim>\<open>devdash_\<close>, and also with
  the prefix dropped their order is not the order of the spec's table
  (\<^verbatim>\<open>screenshot\<close> is third, not last).
\<close>

theorem tool_catalog_spec_names_counterexample:
  "map tool_name list_tools \<noteq>
     [''get_state'', ''get_warnings'', ''list_windows'', ''get_logs'', ''screenshot''] \<and>
   map (drop 8) (map tool_name list_tools) \<noteq>
     [''get_state'', ''get_warnings'', ''list_windows'', ''get_logs'', ''screenshot'']"
  by (simp add: list_tools_def)

text \<open>
  Claim C3, as the code has it. \<^verbatim>\<open>list_tools\<close> is a constant list of five tools with
  distinct names, in the order \<^verbatim>\<open>devdash_get_state\<close>, \<^verbatim>\<open>devdash_get_warnings\<close>,
  \<^verbatim>\<open>devdash_screenshot\<close>, \<^verbatim>\<open>devdash_list_windows\<close>, \<^verbatim>\<open>devdash_get_logs\<close>. Each name
  is dispatched to its own fixed route: the three tools without arguments always issue
  one request to it, \<^verbatim>\<open>devdash_screenshot\<close> issues one when \<^verbatim>\<open>window\<close> is given and
  not empty, and \<^verbatim>\<open>devdash_get_logs\<close> issues one when its parameters can be built.
\<close>

theorem tool_catalog:
  "map tool_name list_tools =
     [''devdash_get_state'', ''devdash_get_warnings'', ''devdash_screenshot'',
      ''devdash_list_windows'', ''devdash_get_logs''] \<and>
   length list_tools = 5 \<and>
   distinct (map tool_name list_tools) \<and>
   fst (call_tool js backend ''devdash_get_state'' arguments) =
     [\<lparr>url = ''http://127.0.0.1:18080/api/state'', params = []\<rparr>] \<and>
   fst (call_tool js backend ''devdash_get_warnings'' arguments) =
     [\<lparr>url = ''http://127.0.0.1:18080/api/warnings'', params = []\<rparr>] \<and>
   fst (call_tool js backend ''devdash_screenshot'' arguments) =
     (if truthy (dict_get arguments ''window'')
      then [\<lparr>url = ''http://127.0.0.1:18080/api/screenshot'',
              params = [(''window'', dict_get arguments ''window'')]\<rparr>]
      else []) \<and>
   fst (call_tool js backend ''devdash_list_windows'' arguments) =
     [\<lparr>url = ''http://127.0.0.1:18080/api/windows'', params = []\<rparr>] \<and>
   fst (call_tool js backend ''devdash_get_logs'' arguments) =
     (case get_logs_params arguments of
        Inl e \<Rightarrow> []
      | Inr ps \<Rightarrow> [\<lparr>url = ''http://127.0.0.1:18080/api/logs'', params = ps\<rparr>])"
proof -
  have names: "map tool_name list_tools =
     [''devdash_get_state'', ''devdash_get_warnings'', ''devdash_screenshot'',
      ''devdash_list_windows'', ''devdash_get_logs'']"
    by (simp add: list_tools_def)
  have "distinct (map tool_name list_tools)"
    unfolding names by simp
  moreover have "length list_tools = 5"
    by (simp add: list_tools_def)
  ultimately show ?thesis
    using names by (simp only: json_tool_requests screenshot_requests get_logs_requests simp_thms)
qed

text \<open>
  Claim C4. For \<^verbatim>\<open>devdash_get_logs\<close>, an integer \<^verbatim>\<open>count\<close> above 1000 is not rejected:
  the call issues its request to \<^verbatim>\<open>/api/logs\<close>, with \<^verbatim>\<open>count\<close> equal to 1000.
\<close>

theorem get_logs_count_clamped:
  assumes "arguments ''count'' = Some (PInt n)" and "1000 < n"
  shows "\<exists>ps. fst (call_tool js backend ''devdash_get_logs'' arguments) =
            [\<lparr>url = ''http://127.0.0.1:18080/api/logs'', params = ps\<rparr>] \<and>
          map_of ps ''count'' = Some (PInt 1000)"
proof -
  obtain rest where "get_logs_params arguments = Inr ((''count'', PInt (min n 1000)) # rest)"
    using assms(1) get_logs_params_int by blast
  then show ?thesis
    using assms(2) by (simp add: get_logs_requests)
qed

text \<open>The claim at \<^verbatim>\<open>count = 5000\<close>.\<close>

theorem get_logs_count_clamped_witness:
  "[''count'' \<mapsto> PInt 5000] ''count'' = Some (PInt 5000) \<and> (1000 :: int) < 5000 \<and>
   (\<exists>ps. fst (call_tool sample_json backend_empty_list ''devdash_get_logs''
              [''count'' \<mapsto> PInt 5000]) =
            [\<lparr>url = ''http://127.0.0.1:18080/api/logs'', params = ps\<rparr>] \<and>
          map_of ps ''count'' = Some (PInt 1000))"
  using get_logs_count_clamped [of "[''count'' \<mapsto> PInt 5000]" 5000 sample_json backend_empty_list]
  by simp

text \<open>
  Claim C5. \<^verbatim>\<open>devdash_screenshot\<close> with a missing or empty \<^verbatim>\<open>window\<close> returns the one
  text block \<^verbatim>\<open>Error: 'window' parameter is required\<close> and issues no request.
\<close>

theorem screenshot_window_required:
  assumes "arguments ''window'' = None \<or> arguments ''window'' = Some (PStr '''')"
  shows "call_tool js backend ''devdash_screenshot'' arguments =
           ([], Inr [TextContent ''Error: 'window' parameter is required''])"
proof -
  have "\<not> truthy (dict_get arguments ''window'')"
    using assms by (auto simp: dict_get_def)
  then show ?thesis
    by (simp add: call_tool_def call_tool_try_def Let_def)
qed

text \<open>The claim at the empty argument dictionary.\<close>

theorem screenshot_window_required_witness:
  "no_arguments ''window'' = None \<and>
   call_tool sample_json backend_empty_list ''devdash_screenshot'' no_arguments =
     ([], Inr [TextContent ''Error: 'window' parameter is required''])"
proof -
  have missing: "no_arguments ''window'' = None"
    by (simp add: no_arguments_def)
  then show ?thesis
    using screenshot_window_required [of no_arguments sample_json backend_empty_list] by simp
qed

text \<open>
  Claim C7. For every tool whose call issues a request (only the five known tools issue
  one), a response with a status code outside 200..299 gives one text block,
  \<^verbatim>\<open>Error: HTTP <status> - <body>\<close>, which contains the decimal status code and the
  response's text unchanged.
\<close>

theorem http_error_status_reported:
  assumes "req \<in> set (fst (call_tool js backend name arguments))"
    and "backend req = Inr r"
    and "\<not> (200 \<le> status_code r \<and> status_code r \<le> 299)"
  shows "\<exists>t. snd (call_tool js backend name arguments) = Inr [TextContent t] \<and>
           t = ''Error: HTTP '' @ str_int (status_code r) @ '' - '' @ resp_text r \<and>
           sublist (str_int (status_code r)) t \<and> sublist (resp_text r) t"
proof -
  let ?t = "''Error: HTTP '' @ str_int (status_code r) @ '' - '' @ resp_text r"
  have "snd (call_tool js backend name arguments) = Inr [TextContent ?t]"
    using issued_request_status [OF assms] by simp
  moreover have "sublist (str_int (status_code r)) ?t"
    by (rule sublist_appendI)
  moreover have "sublist (resp_text r) ?t"
    unfolding sublist_def by (intro exI [of _ "''Error: HTTP '' @ str_int (status_code r) @ '' - ''"] exI [of _ "[]"]) simp
  ultimately show ?thesis by blast
qed

text \<open>The claim at \<^verbatim>\<open>devdash_list_windows\<close> answered by 404 with the body \<^verbatim>\<open>not found\<close>.\<close>

theorem http_error_status_reported_witness:
  "snd (call_tool sample_json backend_not_found ''devdash_list_windows'' no_arguments) =
     Inr [TextContent ''Error: HTTP 404 - not found''] \<and>
   sublist ''404'' ''Error: HTTP 404 - not found'' \<and>
   sublist ''not found'' ''Error: HTTP 404 - not found''"
proof -
  let ?req = "\<lparr>url = ''http://127.0.0.1:18080/api/windows'', params = []\<rparr>"
  let ?r = "\<lparr>status_code = 404, resp_content = ''not found'', resp_text = ''not found''\<rparr>"
  have issued: "?req \<in> set (fst (call_tool sample_json backend_not_found ''devdash_list_windows'' no_arguments))"
    by (simp add: json_tool_requests)
  have answer: "backend_not_found ?req = Inr ?r"
    by (simp add: backend_not_found_def)
  have status: "\<not> (200 \<le> status_code ?r \<and> status_code ?r \<le> 299)"
    by simp
  have code: "str_int (status_code ?r) = ''404''"
    by (simp add: str_int_def digit_char_def)
  show ?thesis
    using http_error_status_reported [OF issued answer status] unfolding code by auto
qed

text \<open>
  Claim C8. When the request of a call is refused (\<^verbatim>\<open>httpx.ConnectError\<close>), the call
  returns one text block with the fixed sentence of the first handler, which contains
  \<^verbatim>\<open>Cannot connect\<close>. The sentence does not depend on the exception's own message
  \<open>m\<close>, and it differs from the text the catch-all handler builds from \<open>m\<close> (unless
  \<open>m\<close> is that very sentence).
\<close>

theorem connection_refused_message:
  assumes "req \<in> set (fst (call_tool js backend name arguments))"
    and "backend req = Inl (ConnectError m)"
  shows "snd (call_tool js backend name arguments) = Inr [TextContent connect_error_text] \<and>
         sublist ''Cannot connect'' connect_error_text \<and>
         (m \<noteq> drop 7 connect_error_text \<longrightarrow>
            handle_fault (ConnectError m) \<noteq> handle_fault (OtherException m))"
proof -
  have "snd (call_tool js backend name arguments) = Inr [TextContent connect_error_text]"
    using issued_request_fault [OF assms] by simp
  moreover have "sublist ''Cannot connect'' connect_error_text"
    unfolding sublist_def connect_error_text_def
    by (intro exI [of _ "''Error: ''"] exI [of _ "'' to DevDash. Make sure DevDash is running with DevTools server enabled.''"]) simp
  moreover have "m \<noteq> drop 7 connect_error_text \<longrightarrow>
            handle_fault (ConnectError m) \<noteq> handle_fault (OtherException m)"
    by (auto simp: connect_error_text_def)
  ultimately show ?thesis by blast
qed

text \<open>The claim at \<^verbatim>\<open>devdash_get_state\<close> against a backend that refuses every connection.\<close>

theorem connection_refused_message_witness:
  "snd (call_tool sample_json backend_refusing ''devdash_get_state'' no_arguments) =
     Inr [TextContent connect_error_text] \<and>
   sublist ''Cannot connect'' connect_error_text \<and>
   handle_fault (ConnectError ''All connection attempts failed'') \<noteq>
     handle_fault (OtherException ''All connection attempts failed'')"
proof -
  let ?req = "\<lparr>url = ''http://127.0.0.1:18080/api/state'', params = []\<rparr>"
  have issued: "?req \<in> set (fst (call_tool sample_json backend_refusing ''devdash_get_state'' no_arguments))"
    by (simp add: json_tool_requests)
  have refused: "backend_refusing ?req = Inl (ConnectError ''All connection attempts failed'')"
    by (simp add: backend_refusing_def)
  have other: "''All connection attempts failed'' \<noteq> drop 7 connect_error_text"
    by (simp add: connect_error_text_def)
  show ?thesis
    using connection_refused_message [OF issued refused] other by blast
qed

text \<open>
  Claim C9. For every tool name and argument dictionary, the list \<^verbatim>\<open>call_tool\<close>
  returns has exactly one content block.
\<close>

theorem call_tool_single_block:
  "\<exists>b. snd (call_tool js backend name arguments) = Inr [b]"
proof (cases "snd (call_tool_try js backend name arguments)")
  case (Inl e)
  then show ?thesis
    using handle_fault_single [of e] by (auto simp: call_tool_result)
next
  case (Inr blocks)
  then show ?thesis
    using call_tool_try_single [of js backend name arguments blocks] by (auto simp: call_tool_result)
qed

text \<open>
  Claim C10. For \<^verbatim>\<open>devdash_get_logs\<close>, an integer \<^verbatim>\<open>count\<close> of at most 1000, zero and
  negative integers included, is forwarded unchanged: \<^verbatim>\<open>min\<close> bounds it from above
  only.
\<close>

theorem get_logs_count_forwarded:
  assumes "arguments ''count'' = Some (PInt n)" and "n \<le> 1000"
  shows "\<exists>ps. fst (call_tool js backend ''devdash_get_logs'' arguments) =
            [\<lparr>url = ''http://127.0.0.1:18080/api/logs'', params = ps\<rparr>] \<and>
          map_of ps ''count'' = Some (PInt n)"
proof -
  obtain rest where "get_logs_params arguments = Inr ((''count'', PInt (min n 1000)) # rest)"
    using assms(1) get_logs_params_int by blast
  then show ?thesis
    using assms(2) by (simp add: get_logs_requests)
qed

text \<open>The claim at \<^verbatim>\<open>count = -5\<close>.\<close>

theorem get_logs_count_forwarded_witness:
  "[''count'' \<mapsto> PInt (- 5)] ''count'' = Some (PInt (- 5)) \<and> (- 5 :: int) \<le> 1000 \<and>
   (\<exists>ps. fst (call_tool sample_json backend_empty_list ''devdash_get_logs''
              [''count'' \<mapsto> PInt (- 5)]) =
            [\<lparr>url = ''http://127.0.0.1:18080/api/logs'', params = ps\<rparr>] \<and>
          map_of ps ''count'' = Some (PInt (- 5)))"
  using get_logs_count_forwarded [of "[''count'' \<mapsto> PInt (- 5)]" "- 5" sample_json backend_empty_list]
  by simp

end
